theory Spec2Isabelle
  imports Main "HOL-Library.Sublist"
begin

section \<open>Python values of the hatchrest integration\<close>

subsection \<open>Exceptions\<close>

text \<open>
  The exception classes that \<open>custom_components/hatchrest/__init__.py\<close> raises, catches
  or lets through. An instance of a subclass counts as an instance of the class an
  \<open>except\<close> clause names (the bleak errors all derive from \<open>BleakError\<close>), and
  \<open>OtherException c\<close> stands for an instance of any class \<open>c\<close> that derives from none of
  the named ones.
\<close>

datatype exn_class =
    TimeoutError
  | BleakError
  | UpdateFailed
  | ValueError
  | AssertionError
  | KeyError
  | ConfigEntryNotReady
  | OtherException string

text \<open>
  An exception instance: its class, its first argument (the message, or the key of a
  \<open>KeyError\<close>) and its \<open>__cause__\<close>, set by \<open>raise ... from exc\<close>.
\<close>

datatype exn = Exn (cls: exn_class) (arg: string) (cause: "exn option")

subsection \<open>The Device Handle\<close>

text \<open>
  A \<open>PyHatchBabyRestAsync\<close> object is shared: the coordinator and every entity hold a
  reference to the same object, and \<open>refresh_data\<close> updates it in place. Objects live in
  a store and are named by references. The attributes read by this module are the
  name and the address (either may be \<open>None\<close>); the rest of the object is the opaque
  device state \<open>'s\<close>.
\<close>

type_synonym ref = nat

record 's device_obj =
  name :: "string option"
  address :: "string option"
  state :: 's

type_synonym 's heap = "ref \<Rightarrow> 's device_obj"

datatype ble_device = BLEDevice string

subsection \<open>Coordinator, entity, host\<close>

text \<open>
  \<open>HatchRestCoordinator\<close>: the two attributes the class sets itself, and the three of
  the base class \<open>DataUpdateCoordinator\<close> that the constructor call fixes (the name, the
  update interval in seconds, and \<open>data\<close>, which starts as \<open>None\<close>).
\<close>

record 's HatchRestCoordinator =
  coordinator_name :: string
  update_interval :: nat
  data :: "'s option"
  unique_id :: "string option"
  device :: ref

record HatchRestEntity =
  entity_device :: ref
  attr_unique_id :: "string option"

record DeviceInfo =
  identifiers :: "(string \<times> string) set"
  connections :: "(string \<times> string) set"
  info_name :: "string option"
  manufacturer :: string
  model :: string

datatype Platform = SWITCH | OtherPlatform string

record ConfigEntry =
  entry_id :: string
  entry_unique_id :: "string option"
  entry_data :: "string \<rightharpoonup> string"

text \<open>
  The host object: \<open>hass.data\<close>, of which this module uses the dictionary stored under
  its domain (entry id to coordinator), and the platform set-ups requested through
  \<open>hass.config_entries.async_setup_platforms\<close>, in order.
\<close>

record 's HomeAssistant =
  hass_data :: "string \<rightharpoonup> (string \<rightharpoonup> 's HatchRestCoordinator)"
  setup_platforms :: "(string \<times> Platform list) list"

subsection \<open>What the module imports\<close>

text \<open>
  Constants and functions that the module imports and that are defined elsewhere, taken
  as parameters:
  \<^item> \<open>DOMAIN\<close> of \<open>.const\<close>, \<open>CONF_ADDRESS\<close> of \<open>homeassistant.const\<close> and
    \<open>CONNECTION_BLUETOOTH\<close> of the device registry;
  \<^item> \<open>bluetooth.async_ble_device_from_address(hass, address)\<close>, the discovery of a
    connectable device by address;
  \<^item> \<open>connect_async(ble_device, scan_now)\<close>, which either raises or creates a Device
    Handle in the store;
  \<^item> \<open>refresh_data t r\<close>: awaiting \<open>refresh_data()\<close> of the device \<open>r\<close> inside
    \<open>async_timeout.timeout(t)\<close>. The outcome is what the \<open>try\<close> block observes at the end
    of the \<open>async with\<close> block: an exception (a \<open>TimeoutError\<close> when the \<open>t\<close> seconds
    expire) or the value the call produced; with it comes the store the call leaves
    behind.
\<close>

record 's env =
  DOMAIN :: string
  CONF_ADDRESS :: string
  CONNECTION_BLUETOOTH :: string
  async_ble_device_from_address :: "'s HomeAssistant \<Rightarrow> string \<Rightarrow> ble_device option"
  connect_async :: "ble_device \<Rightarrow> bool \<Rightarrow> 's heap \<Rightarrow> (exn + ref) \<times> 's heap"
  refresh_data :: "nat \<Rightarrow> ref \<Rightarrow> 's heap \<Rightarrow> (exn + 's option) \<times> 's heap"

section \<open>The coordinator\<close>

definition PLATFORMS :: "Platform list" where
  "PLATFORMS = [SWITCH]"

text \<open>\<open>HatchRestCoordinator.__init__\<close>.\<close>

definition HatchRestCoordinator_init ::
  "'s HomeAssistant \<Rightarrow> string option \<Rightarrow> ref \<Rightarrow> 's HatchRestCoordinator" where
  "HatchRestCoordinator_init hass uid dev =
     \<lparr>coordinator_name = ''hatchrest'', update_interval = 30, data = None,
      unique_id = uid, device = dev\<rparr>"

text \<open>
  \<open>HatchRestCoordinator._async_update_data\<close>. The result is the exception raised or the
  value returned (the body has no \<open>return\<close>, so the value is \<open>None\<close>), the coordinator
  after the call, and the store after the call. The value awaited from \<open>refresh_data\<close> is
  dropped, as the statement \<open>await self.device.refresh_data()\<close> drops it.
\<close>

definition async_update_data ::
  "'s env \<Rightarrow> 's HatchRestCoordinator \<Rightarrow> 's heap
     \<Rightarrow> (exn + 's option) \<times> 's HatchRestCoordinator \<times> 's heap" where
  "async_update_data env self h =
     (case refresh_data env 10 (device self) h of
        (Inr v, h') \<Rightarrow> (Inr None, self, h')
      | (Inl exc, h') \<Rightarrow>
          (case cls exc of
             TimeoutError \<Rightarrow>
               (Inl (Exn UpdateFailed
                       ''Connection timed out while fetching data from device'' (Some exc)),
                self, h')
           | BleakError \<Rightarrow>
               (Inl (Exn UpdateFailed ''Failed getting data from device'' (Some exc)),
                self, h')
           | _ \<Rightarrow> (Inl exc, self, h')))"

section \<open>The entity\<close>

text \<open>\<open>HatchRestEntity.__init__\<close>: the entity keeps the coordinator's device and unique id.\<close>

definition HatchRestEntity_init :: "'s HatchRestCoordinator \<Rightarrow> HatchRestEntity" where
  "HatchRestEntity_init coordinator =
     \<lparr>entity_device = device coordinator, attr_unique_id = unique_id coordinator\<rparr>"

definition device_name :: "HatchRestEntity \<Rightarrow> 's heap \<Rightarrow> string option" where
  "device_name self h = name (h (entity_device self))"

text \<open>Python's truth value of a string or \<open>None\<close>: \<open>None\<close> and the empty string are false.\<close>

fun truthy :: "string option \<Rightarrow> bool" where
  "truthy None = False"
| "truthy (Some s) = (s \<noteq> [])"

text \<open>
  \<open>HatchRestEntity.device_info\<close>. \<open>self.unique_id\<close> is the host's property that reads
  \<open>_attr_unique_id\<close>. The two \<open>assert\<close> statements are the branches that raise
  \<open>AssertionError\<close>.
\<close>

definition device_info :: "'s env \<Rightarrow> HatchRestEntity \<Rightarrow> 's heap \<Rightarrow> exn + DeviceInfo" where
  "device_info env self h =
     (if \<not> list_all truthy [address (h (entity_device self)), attr_unique_id self]
      then Inl (Exn ValueError ''Missing bluetooth address for hatch rest device'' None)
      else
        (case address (h (entity_device self)) of
           None \<Rightarrow> Inl (Exn AssertionError [] None)
         | Some a \<Rightarrow>
             if a = [] then Inl (Exn AssertionError [] None)
             else
               (case attr_unique_id self of
                  None \<Rightarrow> Inl (Exn AssertionError [] None)
                | Some u \<Rightarrow>
                    if u = [] then Inl (Exn AssertionError [] None)
                    else
                      Inr \<lparr>identifiers = {(DOMAIN env, u)},
                           connections = {(CONNECTION_BLUETOOTH env, a)},
                           info_name = device_name self h,
                           manufacturer = ''Hatch'',
                           model = ''Rest''\<rparr>)))"

section \<open>Setting up a config entry\<close>

text \<open>
  \<open>str.upper\<close> on the characters of a Bluetooth address: the ASCII letters \<open>a\<close> to \<open>z\<close>
  become \<open>A\<close> to \<open>Z\<close>, every other ASCII character stays. Addresses are ASCII strings.
\<close>

definition upper_char :: "char \<Rightarrow> char" where
  "upper_char c =
     (if 97 \<le> (of_char c :: nat) \<and> (of_char c :: nat) \<le> 122
      then char_of ((of_char c :: nat) - 32) else c)"

definition upper :: "string \<Rightarrow> string" where
  "upper s = map upper_char s"

text \<open>
  \<open>hass.data.setdefault(DOMAIN, {})[entry_id] = coordinator\<close>: the dictionary under the
  domain is created when missing, and the coordinator is stored in it.
\<close>

definition setdefault_store ::
  "(string \<rightharpoonup> (string \<rightharpoonup> 'c)) \<Rightarrow> string \<Rightarrow> string \<Rightarrow> 'c \<Rightarrow> (string \<rightharpoonup> (string \<rightharpoonup> 'c))" where
  "setdefault_store d key k v =
     (case d key of
        None \<Rightarrow> d(key \<mapsto> Map.empty(k \<mapsto> v))
      | Some m \<Rightarrow> d(key \<mapsto> m(k \<mapsto> v)))"

text \<open>
  \<open>async_setup_entry\<close>. The right-hand side of the assignment is evaluated first, so an
  exception of \<open>connect_async\<close> leaves \<open>hass.data\<close> as it was.
\<close>

definition async_setup_entry ::
  "'s env \<Rightarrow> 's HomeAssistant \<Rightarrow> ConfigEntry \<Rightarrow> 's heap
     \<Rightarrow> (exn + bool) \<times> 's HomeAssistant \<times> 's heap" where
  "async_setup_entry env hass entry h =
     (case entry_data entry (CONF_ADDRESS env) of
        None \<Rightarrow> (Inl (Exn KeyError (CONF_ADDRESS env) None), hass, h)
      | Some addr \<Rightarrow>
          (case async_ble_device_from_address env hass (upper addr) of
             None \<Rightarrow>
               (Inl (Exn ConfigEntryNotReady
                       (''Could not find Hatch Rest device with address '' @ addr) None),
                hass, h)
           | Some ble \<Rightarrow>
               (case connect_async env ble False h of
                  (Inl exc, h') \<Rightarrow> (Inl exc, hass, h')
                | (Inr dev, h') \<Rightarrow>
                    (Inr True,
                     hass\<lparr>hass_data :=
                            setdefault_store (hass_data hass) (DOMAIN env) (entry_id entry)
                              (HatchRestCoordinator_init hass (entry_unique_id entry) dev),
                          setup_platforms :=
                            setup_platforms hass @ [(entry_id entry, PLATFORMS)]\<rparr>,
                     h'))))"

section \<open>Concrete scenarios\<close>

text \<open>
  A device named "Nursery" at address \<open>AA:BB:CC:DD:EE:FF\<close>, stored at reference 0, and
  a host in which discovery knows exactly that address. \<open>scenario_env out\<close> is the
  environment in which the refresh under the timeout has the outcome \<open>out\<close>; a refresh
  that completes sets the device state to 7.
\<close>

definition nursery :: "nat device_obj" where
  "nursery = \<lparr>name = Some ''Nursery'', address = Some ''AA:BB:CC:DD:EE:FF'', state = 0\<rparr>"

definition scenario_heap :: "nat heap" where
  "scenario_heap = (\<lambda>r. nursery)"

definition scenario_env :: "exn + nat option \<Rightarrow> nat env" where
  "scenario_env out =
     \<lparr>DOMAIN = ''hatchrest'', CONF_ADDRESS = ''address'', CONNECTION_BLUETOOTH = ''bluetooth'',
      async_ble_device_from_address =
        (\<lambda>hass a. if a = ''AA:BB:CC:DD:EE:FF'' then Some (BLEDevice a) else None),
      connect_async = (\<lambda>ble scan_now h. (Inr 0, h)),
      refresh_data =
        (\<lambda>t r h. case out of
                    Inl e \<Rightarrow> (Inl e, h)
                  | Inr v \<Rightarrow> (Inr v, h(r := (h r)\<lparr>state := 7\<rparr>)))\<rparr>"

definition scenario_hass :: "nat HomeAssistant" where
  "scenario_hass = \<lparr>hass_data = Map.empty, setup_platforms = []\<rparr>"

definition scenario_coordinator :: "nat HatchRestCoordinator" where
  "scenario_coordinator = HatchRestCoordinator_init scenario_hass (Some ''hatch-1'') 0"

definition scenario_entity :: HatchRestEntity where
  "scenario_entity = HatchRestEntity_init scenario_coordinator"

definition scenario_entry :: "string \<Rightarrow> ConfigEntry" where
  "scenario_entry a =
     \<lparr>entry_id = ''entry-1'', entry_unique_id = Some ''hatch-1'',
      entry_data = Map.empty(''address'' \<mapsto> a)\<rparr>"

definition timeout_exc :: exn where
  "timeout_exc = Exn TimeoutError [] None"

definition bleak_exc :: exn where
  "bleak_exc = Exn BleakError ''disconnected'' None"

definition cancelled_exc :: exn where
  "cancelled_exc = Exn (OtherException ''CancelledError'') [] None"

section \<open>Refreshing\<close>

text \<open>
  C1. When the refresh of the device under the 10-second timeout ends in a
  \<open>TimeoutError\<close>, \<open>_async_update_data\<close> raises \<open>UpdateFailed\<close> with the message
  "Connection timed out while fetching data from device" (and the timeout as its cause).
\<close>

theorem update_timeout_message:
  assumes "refresh_data env 10 (device self) h = (Inl exc, h')"
    and "cls exc = TimeoutError"
  shows "fst (async_update_data env self h) =
           Inl (Exn UpdateFailed ''Connection timed out while fetching data from device''
                  (Some exc))"
  using assms by (simp add: async_update_data_def)

theorem update_timeout_message_witness:
  "refresh_data (scenario_env (Inl timeout_exc)) 10 (device scenario_coordinator) scenario_heap
     = (Inl timeout_exc, scenario_heap)
   \<and> cls timeout_exc = TimeoutError
   \<and> fst (async_update_data (scenario_env (Inl timeout_exc)) scenario_coordinator scenario_heap)
       = Inl (Exn UpdateFailed ''Connection timed out while fetching data from device''
                (Some timeout_exc))"
proof -
  have r: "refresh_data (scenario_env (Inl timeout_exc)) 10 (device scenario_coordinator)
             scenario_heap = (Inl timeout_exc, scenario_heap)"
    by (simp add: scenario_env_def)
  have c: "cls timeout_exc = TimeoutError"
    by (simp add: timeout_exc_def)
  from update_timeout_message [OF r c] r c show ?thesis by simp
qed

text \<open>
  C2. When the refresh ends in a \<open>BleakError\<close>, \<open>_async_update_data\<close> raises
  \<open>UpdateFailed\<close> with the message "Failed getting data from device".
\<close>

theorem update_transport_message:
  assumes "refresh_data env 10 (device self) h = (Inl exc, h')"
    and "cls exc = BleakError"
  shows "fst (async_update_data env self h) =
           Inl (Exn UpdateFailed ''Failed getting data from device'' (Some exc))"
  using assms by (simp add: async_update_data_def)

theorem update_transport_message_witness:
  "refresh_data (scenario_env (Inl bleak_exc)) 10 (device scenario_coordinator) scenario_heap
     = (Inl bleak_exc, scenario_heap)
   \<and> cls bleak_exc = BleakError
   \<and> fst (async_update_data (scenario_env (Inl bleak_exc)) scenario_coordinator scenario_heap)
       = Inl (Exn UpdateFailed ''Failed getting data from device'' (Some bleak_exc))"
proof -
  have r: "refresh_data (scenario_env (Inl bleak_exc)) 10 (device scenario_coordinator)
             scenario_heap = (Inl bleak_exc, scenario_heap)"
    by (simp add: scenario_env_def)
  have c: "cls bleak_exc = BleakError"
    by (simp add: bleak_exc_def)
  from update_transport_message [OF r c] r c show ?thesis by simp
qed

text \<open>
  C3, as stated: on a successful refresh the value that \<open>_async_update_data\<close> returns is
  the refreshed device state, not \<open>None\<close>. It fails: in the scenario the refresh completes,
  yields the value 7 and leaves the device in state 7, and the value returned is \<open>None\<close>;
  the coordinator's \<open>data\<close> is not written either.
\<close>

theorem update_success_snapshot_counterexample:
  "refresh_data (scenario_env (Inr (Some 7))) 10 (device scenario_coordinator) scenario_heap
     = (Inr (Some 7), scenario_heap(0 := nursery\<lparr>state := 7\<rparr>))
   \<and> state ((snd (snd (async_update_data (scenario_env (Inr (Some 7)))
                          scenario_coordinator scenario_heap))) 0) = 7
   \<and> fst (async_update_data (scenario_env (Inr (Some 7))) scenario_coordinator scenario_heap)
       = Inr None
   \<and> fst (async_update_data (scenario_env (Inr (Some 7))) scenario_coordinator scenario_heap)
       \<noteq> Inr (Some 7)
   \<and> data (fst (snd (async_update_data (scenario_env (Inr (Some 7)))
                        scenario_coordinator scenario_heap))) = None"
  by (simp add: async_update_data_def scenario_env_def scenario_coordinator_def
        scenario_heap_def HatchRestCoordinator_init_def)

text \<open>
  C3, amended. On a successful refresh \<open>_async_update_data\<close> returns \<open>None\<close>, whatever the
  refresh yielded, and leaves every field of the coordinator as it was; the refreshed
  state is in the Device Handle, that is in the store the refresh leaves behind.
\<close>

theorem update_success_returns_none:
  assumes "refresh_data env 10 (device self) h = (Inr v, h')"
  shows "async_update_data env self h = (Inr None, self, h')"
  using assms by (simp add: async_update_data_def)

theorem update_success_returns_none_witness:
  "refresh_data (scenario_env (Inr (Some 7))) 10 (device scenario_coordinator) scenario_heap
     = (Inr (Some 7), scenario_heap(0 := nursery\<lparr>state := 7\<rparr>))
   \<and> async_update_data (scenario_env (Inr (Some 7))) scenario_coordinator scenario_heap
       = (Inr None, scenario_coordinator, scenario_heap(0 := nursery\<lparr>state := 7\<rparr>))"
proof -
  have r: "refresh_data (scenario_env (Inr (Some 7))) 10 (device scenario_coordinator)
             scenario_heap = (Inr (Some 7), scenario_heap(0 := nursery\<lparr>state := 7\<rparr>))"
    by (simp add: scenario_env_def scenario_coordinator_def scenario_heap_def
          HatchRestCoordinator_init_def)
  from update_success_returns_none [OF r] r show ?thesis by simp
qed

text \<open>
  C4. A refresh that fails with a timeout or a transport error raises, and the
  coordinator after the call is the coordinator before it: the stored snapshot, the
  device reference, the unique id and the other fields are the same.
\<close>

theorem update_failure_keeps_coordinator:
  assumes "refresh_data env 10 (device self) h = (Inl exc, h')"
    and "cls exc = TimeoutError \<or> cls exc = BleakError"
  shows "isl (fst (async_update_data env self h))
         \<and> fst (snd (async_update_data env self h)) = self
         \<and> data (fst (snd (async_update_data env self h))) = data self
         \<and> device (fst (snd (async_update_data env self h))) = device self
         \<and> unique_id (fst (snd (async_update_data env self h))) = unique_id self"
  using assms by (auto simp add: async_update_data_def)

theorem update_failure_keeps_coordinator_witness:
  "refresh_data (scenario_env (Inl bleak_exc)) 10
       (device (scenario_coordinator\<lparr>data := Some 3\<rparr>)) scenario_heap
     = (Inl bleak_exc, scenario_heap)
   \<and> cls bleak_exc = BleakError
   \<and> isl (fst (async_update_data (scenario_env (Inl bleak_exc))
                 (scenario_coordinator\<lparr>data := Some 3\<rparr>) scenario_heap))
   \<and> data (fst (snd (async_update_data (scenario_env (Inl bleak_exc))
                        (scenario_coordinator\<lparr>data := Some 3\<rparr>) scenario_heap))) = Some 3"
proof -
  have r: "refresh_data (scenario_env (Inl bleak_exc)) 10
             (device (scenario_coordinator\<lparr>data := Some 3\<rparr>)) scenario_heap
           = (Inl bleak_exc, scenario_heap)"
    by (simp add: scenario_env_def)
  have c: "cls bleak_exc = TimeoutError \<or> cls bleak_exc = BleakError"
    by (simp add: bleak_exc_def)
  have b: "cls bleak_exc = BleakError"
    by (simp add: bleak_exc_def)
  from update_failure_keeps_coordinator [OF r c] r b show ?thesis by simp
qed

text \<open>
  C5. An exception of the refresh whose class is neither \<open>TimeoutError\<close> nor
  \<open>BleakError\<close> leaves \<open>_async_update_data\<close> as it is; an exception of one of the two
  classes never does, it is replaced by an \<open>UpdateFailed\<close> that has it as its cause.
\<close>

theorem update_other_exception_propagates:
  assumes "refresh_data env 10 (device self) h = (Inl exc, h')"
  shows "(cls exc \<noteq> TimeoutError \<and> cls exc \<noteq> BleakError
            \<longrightarrow> fst (async_update_data env self h) = Inl exc)
         \<and> (cls exc = TimeoutError \<or> cls exc = BleakError
            \<longrightarrow> (\<exists>m. fst (async_update_data env self h) = Inl (Exn UpdateFailed m (Some exc)))
                \<and> fst (async_update_data env self h) \<noteq> Inl exc)"
proof (cases "cls exc")
  case TimeoutError
  with assms show ?thesis
    by (cases exc) (simp add: async_update_data_def)
next
  case BleakError
  with assms show ?thesis
    by (cases exc) (simp add: async_update_data_def)
qed (use assms in \<open>simp_all add: async_update_data_def\<close>)

theorem update_other_exception_propagates_witness:
  "refresh_data (scenario_env (Inl cancelled_exc)) 10 (device scenario_coordinator) scenario_heap
     = (Inl cancelled_exc, scenario_heap)
   \<and> cls cancelled_exc \<noteq> TimeoutError \<and> cls cancelled_exc \<noteq> BleakError
   \<and> fst (async_update_data (scenario_env (Inl cancelled_exc)) scenario_coordinator scenario_heap)
       = Inl cancelled_exc
   \<and> cls timeout_exc = TimeoutError
   \<and> fst (async_update_data (scenario_env (Inl timeout_exc)) scenario_coordinator scenario_heap)
       \<noteq> Inl timeout_exc"
proof -
  have r: "refresh_data (scenario_env (Inl cancelled_exc)) 10 (device scenario_coordinator)
             scenario_heap = (Inl cancelled_exc, scenario_heap)"
    by (simp add: scenario_env_def)
  have c: "cls cancelled_exc \<noteq> TimeoutError \<and> cls cancelled_exc \<noteq> BleakError"
    by (simp add: cancelled_exc_def)
  have r': "refresh_data (scenario_env (Inl timeout_exc)) 10 (device scenario_coordinator)
             scenario_heap = (Inl timeout_exc, scenario_heap)"
    by (simp add: scenario_env_def)
  have c': "cls timeout_exc = TimeoutError"
    by (simp add: timeout_exc_def)
  from update_other_exception_propagates [OF r] update_other_exception_propagates [OF r']
    r c c' show ?thesis by simp
qed

section \<open>The device descriptor\<close>

text \<open>
  C6. \<open>device_info\<close> raises \<open>ValueError\<close> exactly when the device address is \<open>None\<close> or
  empty or the unique id is \<open>None\<close> or empty; when both are present it returns a
  descriptor.
\<close>

theorem device_info_missing_identity:
  "((\<exists>e. device_info env self h = Inl e \<and> cls e = ValueError)
      = (address (h (entity_device self)) = None \<or> address (h (entity_device self)) = Some []
         \<or> attr_unique_id self = None \<or> attr_unique_id self = Some []))
   \<and> (isl (device_info env self h)
      = (address (h (entity_device self)) = None \<or> address (h (entity_device self)) = Some []
         \<or> attr_unique_id self = None \<or> attr_unique_id self = Some []))"
proof (cases "address (h (entity_device self))")
  case None
  then show ?thesis by (simp add: device_info_def)
next
  case a: (Some a)
  show ?thesis
  proof (cases "attr_unique_id self")
    case None
    with a show ?thesis by (simp add: device_info_def)
  next
    case (Some u)
    with a show ?thesis by (simp add: device_info_def)
  qed
qed

theorem device_info_missing_identity_witness:
  "isl (device_info (scenario_env (Inr None)) (scenario_entity\<lparr>attr_unique_id := None\<rparr>)
          scenario_heap)
   \<and> isl (device_info (scenario_env (Inr None)) scenario_entity
            (scenario_heap(0 := nursery\<lparr>address := Some []\<rparr>)))
   \<and> \<not> isl (device_info (scenario_env (Inr None)) scenario_entity scenario_heap)"
  using
    device_info_missing_identity [of "scenario_env (Inr None)"
      "scenario_entity\<lparr>attr_unique_id := None\<rparr>" scenario_heap]
    device_info_missing_identity [of "scenario_env (Inr None)" scenario_entity
      "scenario_heap(0 := nursery\<lparr>address := Some []\<rparr>)"]
    device_info_missing_identity [of "scenario_env (Inr None)" scenario_entity scenario_heap]
  by (simp add: scenario_entity_def scenario_coordinator_def scenario_heap_def nursery_def
        HatchRestEntity_init_def HatchRestCoordinator_init_def)

text \<open>
  C7. With a non-empty address \<open>a\<close> and a non-empty unique id \<open>u\<close>, \<open>device_info\<close>
  returns the descriptor with the identifiers \<open>{(DOMAIN, u)}\<close>, the connections
  \<open>{(CONNECTION_BLUETOOTH, a)}\<close>, the device's name, the manufacturer "Hatch" and the
  model "Rest", and nothing else.
\<close>

theorem device_info_descriptor:
  assumes "address (h (entity_device self)) = Some a" and "a \<noteq> []"
    and "attr_unique_id self = Some u" and "u \<noteq> []"
  shows "device_info env self h =
           Inr \<lparr>identifiers = {(DOMAIN env, u)},
                connections = {(CONNECTION_BLUETOOTH env, a)},
                info_name = name (h (entity_device self)),
                manufacturer = ''Hatch'',
                model = ''Rest''\<rparr>"
  using assms by (simp add: device_info_def device_name_def)

theorem device_info_descriptor_witness:
  "address (scenario_heap (entity_device scenario_entity)) = Some ''AA:BB:CC:DD:EE:FF''
   \<and> attr_unique_id scenario_entity = Some ''hatch-1''
   \<and> device_info (scenario_env (Inr None)) scenario_entity scenario_heap =
       Inr \<lparr>identifiers = {(''hatchrest'', ''hatch-1'')},
            connections = {(''bluetooth'', ''AA:BB:CC:DD:EE:FF'')},
            info_name = Some ''Nursery'',
            manufacturer = ''Hatch'',
            model = ''Rest''\<rparr>"
proof -
  have a: "address (scenario_heap (entity_device scenario_entity)) = Some ''AA:BB:CC:DD:EE:FF''"
    by (simp add: scenario_heap_def nursery_def)
  have u: "attr_unique_id scenario_entity = Some ''hatch-1''"
    by (simp add: scenario_entity_def scenario_coordinator_def HatchRestEntity_init_def
          HatchRestCoordinator_init_def)
  have n: "name (scenario_heap (entity_device scenario_entity)) = Some ''Nursery''"
    by (simp add: scenario_heap_def nursery_def)
  have a': "''AA:BB:CC:DD:EE:FF'' \<noteq> []" and u': "''hatch-1'' \<noteq> []"
    by simp_all
  from device_info_descriptor
    [where h = scenario_heap and self = scenario_entity and env = "scenario_env (Inr None)",
      OF a a' u u'] a u n
  show ?thesis by (simp add: scenario_env_def)
qed

section \<open>Setting up\<close>

lemma upper_scenario_address: "upper ''aa:bb:cc:dd:ee:ff'' = ''AA:BB:CC:DD:EE:FF''"
  by code_simp

lemma upper_unknown_address: "upper ''aa:bb:cc:dd:ee:00'' = ''AA:BB:CC:DD:EE:00''"
  by code_simp

lemma upper_unknown_address_upper: "upper ''AA:BB:CC:DD:EE:00'' = ''AA:BB:CC:DD:EE:00''"
  by code_simp

text \<open>
  C8. When the entry holds the address \<open>addr\<close> and discovery finds no connectable device
  for it, \<open>async_setup_entry\<close> raises \<open>ConfigEntryNotReady\<close> with a message that ends
  with \<open>addr\<close>, and the host is as before: no coordinator is stored for the entry.
\<close>

theorem setup_not_ready:
  assumes "entry_data entry (CONF_ADDRESS env) = Some addr"
    and "async_ble_device_from_address env hass (upper addr) = None"
  shows "(\<exists>msg. fst (async_setup_entry env hass entry h) = Inl (Exn ConfigEntryNotReady msg None)
               \<and> suffix addr msg)
         \<and> fst (snd (async_setup_entry env hass entry h)) = hass
         \<and> hass_data (fst (snd (async_setup_entry env hass entry h))) = hass_data hass"
  using assms by (simp add: async_setup_entry_def suffix_def)

theorem setup_not_ready_witness:
  "entry_data (scenario_entry ''AA:BB:CC:DD:EE:00'') (CONF_ADDRESS (scenario_env (Inr None)))
     = Some ''AA:BB:CC:DD:EE:00''
   \<and> async_ble_device_from_address (scenario_env (Inr None)) scenario_hass
        (upper ''AA:BB:CC:DD:EE:00'') = None
   \<and> (\<exists>msg. fst (async_setup_entry (scenario_env (Inr None)) scenario_hass
                    (scenario_entry ''AA:BB:CC:DD:EE:00'') scenario_heap)
               = Inl (Exn ConfigEntryNotReady msg None)
             \<and> suffix ''AA:BB:CC:DD:EE:00'' msg)
   \<and> hass_data (fst (snd (async_setup_entry (scenario_env (Inr None)) scenario_hass
                             (scenario_entry ''AA:BB:CC:DD:EE:00'') scenario_heap)))
       = Map.empty"
proof -
  have d: "entry_data (scenario_entry ''AA:BB:CC:DD:EE:00'')
             (CONF_ADDRESS (scenario_env (Inr None))) = Some ''AA:BB:CC:DD:EE:00''"
    by (simp add: scenario_entry_def scenario_env_def)
  have n: "async_ble_device_from_address (scenario_env (Inr None)) scenario_hass
             (upper ''AA:BB:CC:DD:EE:00'') = None"
    by (simp add: scenario_env_def upper_unknown_address_upper)
  have e: "hass_data scenario_hass = Map.empty"
    by (simp add: scenario_hass_def)
  from setup_not_ready [OF d n, of scenario_heap] d n e show ?thesis by simp
qed

text \<open>
  C10. When the entry holds the address \<open>addr\<close>, discovery is asked about
  \<open>upper addr\<close> and nothing else: two discovery functions that agree there give the same
  set-up. When discovery finds nothing there, the message of the \<open>ConfigEntryNotReady\<close>
  ends with \<open>addr\<close> as configured; when it finds a device there, set-up goes on to
  connect to it, whatever the case of \<open>addr\<close>.
\<close>

theorem setup_discovery_upper_case:
  assumes "entry_data entry (CONF_ADDRESS env) = Some addr"
  shows "(f hass (upper addr) = g hass (upper addr) \<longrightarrow>
            async_setup_entry (env\<lparr>async_ble_device_from_address := f\<rparr>) hass entry h
              = async_setup_entry (env\<lparr>async_ble_device_from_address := g\<rparr>) hass entry h)
         \<and> (async_ble_device_from_address env hass (upper addr) = None \<longrightarrow>
            fst (async_setup_entry env hass entry h)
              = Inl (Exn ConfigEntryNotReady
                       (''Could not find Hatch Rest device with address '' @ addr) None))
         \<and> (\<forall>ble. async_ble_device_from_address env hass (upper addr) = Some ble \<longrightarrow>
            fst (async_setup_entry env hass entry h)
              = (case fst (connect_async env ble False h) of
                   Inl exc \<Rightarrow> Inl exc
                 | Inr dev \<Rightarrow> Inr True))"
proof (intro conjI impI allI)
  assume "f hass (upper addr) = g hass (upper addr)"
  with assms
  show "async_setup_entry (env\<lparr>async_ble_device_from_address := f\<rparr>) hass entry h
          = async_setup_entry (env\<lparr>async_ble_device_from_address := g\<rparr>) hass entry h"
    by (cases "g hass (upper addr)")
      (simp_all add: async_setup_entry_def split: prod.splits sum.splits)
next
  assume "async_ble_device_from_address env hass (upper addr) = None"
  with assms
  show "fst (async_setup_entry env hass entry h)
          = Inl (Exn ConfigEntryNotReady
                   (''Could not find Hatch Rest device with address '' @ addr) None)"
    by (simp add: async_setup_entry_def)
next
  fix ble
  assume "async_ble_device_from_address env hass (upper addr) = Some ble"
  with assms
  show "fst (async_setup_entry env hass entry h)
          = (case fst (connect_async env ble False h) of
               Inl exc \<Rightarrow> Inl exc
             | Inr dev \<Rightarrow> Inr True)"
    by (simp add: async_setup_entry_def split: prod.splits sum.splits)
qed

theorem setup_discovery_upper_case_witness:
  "entry_data (scenario_entry ''aa:bb:cc:dd:ee:ff'') (CONF_ADDRESS (scenario_env (Inr None)))
     = Some ''aa:bb:cc:dd:ee:ff''
   \<and> async_ble_device_from_address (scenario_env (Inr None)) scenario_hass
        ''aa:bb:cc:dd:ee:ff'' = None
   \<and> async_ble_device_from_address (scenario_env (Inr None)) scenario_hass
        (upper ''aa:bb:cc:dd:ee:ff'') = Some (BLEDevice ''AA:BB:CC:DD:EE:FF'')
   \<and> fst (async_setup_entry (scenario_env (Inr None)) scenario_hass
             (scenario_entry ''aa:bb:cc:dd:ee:ff'') scenario_heap) = Inr True
   \<and> entry_data (scenario_entry ''aa:bb:cc:dd:ee:00'') (CONF_ADDRESS (scenario_env (Inr None)))
       = Some ''aa:bb:cc:dd:ee:00''
   \<and> async_ble_device_from_address (scenario_env (Inr None)) scenario_hass
        (upper ''aa:bb:cc:dd:ee:00'') = None
   \<and> fst (async_setup_entry (scenario_env (Inr None)) scenario_hass
             (scenario_entry ''aa:bb:cc:dd:ee:00'') scenario_heap)
       = Inl (Exn ConfigEntryNotReady
                ''Could not find Hatch Rest device with address aa:bb:cc:dd:ee:00'' None)"
proof -
  let ?env = "scenario_env (Inr None)"
  have d: "entry_data (scenario_entry ''aa:bb:cc:dd:ee:ff'') (CONF_ADDRESS ?env)
             = Some ''aa:bb:cc:dd:ee:ff''"
    by (simp add: scenario_entry_def scenario_env_def)
  have l: "async_ble_device_from_address ?env scenario_hass ''aa:bb:cc:dd:ee:ff'' = None"
    by (simp add: scenario_env_def)
  have f: "async_ble_device_from_address ?env scenario_hass (upper ''aa:bb:cc:dd:ee:ff'')
             = Some (BLEDevice ''AA:BB:CC:DD:EE:FF'')"
    by (simp add: scenario_env_def upper_scenario_address)
  have c: "fst (connect_async ?env (BLEDevice ''AA:BB:CC:DD:EE:FF'') False scenario_heap)
             = Inr 0"
    by (simp add: scenario_env_def)
  have d': "entry_data (scenario_entry ''aa:bb:cc:dd:ee:00'') (CONF_ADDRESS ?env)
              = Some ''aa:bb:cc:dd:ee:00''"
    by (simp add: scenario_entry_def scenario_env_def)
  have n: "async_ble_device_from_address ?env scenario_hass (upper ''aa:bb:cc:dd:ee:00'')
             = None"
    by (simp add: scenario_env_def upper_unknown_address)
  from setup_discovery_upper_case [OF d, of _ scenario_hass _ scenario_heap]
    setup_discovery_upper_case [OF d', of _ scenario_hass _ scenario_heap]
    d l f c d' n
  show ?thesis by simp
qed

end
